theory Spec2Isabelle
  imports Main
begin

section \<open>Strings and the regular expressions of the script\<close>

text \<open>
  A Python \<open>str\<close> is modelled as a \<open>string\<close>, each \<open>char\<close> standing for the code point
  of the same number (0 to 255). On these code points the class \<open>\d\<close> of a Python 3 \<open>str\<close>
  pattern is exactly \<open>0\<close> to \<open>9\<close>, and \<open>[^.]\<close> holds every character but the dot, the
  newline included.
\<close>

definition not_dot :: "char \<Rightarrow> bool" where
  "not_dot c = (c \<noteq> CHR ''.'')"

definition lower_alnum :: "char \<Rightarrow> bool" where
  "lower_alnum c = (c \<in> set ''abcdefghijklmnopqrstuvwxyz0123456789'')"

definition digit :: "char \<Rightarrow> bool" where
  "digit c = (c \<in> set ''0123456789'')"

text \<open>
  The three patterns of the script are sequences of single characters, character classes,
  classes repeated with \<open>+\<close>, and a final \<open>$\<close>. \<open>One P\<close> is one character of the class
  \<open>P\<close>, \<open>Many1 P\<close> is \<open>P+\<close>, \<open>End\<close> is \<open>$\<close> without the MULTILINE flag: the end of the
  string, or the place just before a newline that ends the string.
\<close>

datatype re_item = One "char \<Rightarrow> bool" | Many1 "char \<Rightarrow> bool" | End

definition Lit :: "char \<Rightarrow> re_item" where
  "Lit c = One (\<lambda>x. x = c)"

definition lits :: "string \<Rightarrow> re_item list" where
  "lits s = map Lit s"

text \<open>
  \<open>pattern.match(s)\<close>: a match that starts at the first character (which makes the leading
  \<open>^\<close> redundant) and may stop anywhere; backtracking over \<open>+\<close> finds a match whenever one
  exists.
\<close>

fun re_match :: "re_item list \<Rightarrow> string \<Rightarrow> bool" where
  "re_match [] s = True"
| "re_match (End # r) s = ((s = [] \<or> s = [CHR 0x0A]) \<and> re_match r s)"
| "re_match (One P # r) [] = False"
| "re_match (One P # r) (c # cs) = (P c \<and> re_match r cs)"
| "re_match (Many1 P # r) [] = False"
| "re_match (Many1 P # r) (c # cs) = (P c \<and> (re_match (Many1 P # r) cs \<or> re_match r cs))"

text \<open>\<open>^ocid1\.drprotectiongroup\.[^.]+\.[^.]+\.[^.]+$\<close>\<close>

definition ocid_tail :: "re_item list" where
  "ocid_tail = [Many1 not_dot, Lit CHR ''.'', Many1 not_dot, Lit CHR ''.'', Many1 not_dot, End]"

definition DRPG_OCID_PATTERN :: "re_item list" where
  "DRPG_OCID_PATTERN = lits ''ocid1.drprotectiongroup.'' @ ocid_tail"

text \<open>\<open>^ocid1\.onstopic\.[^.]+\.[^.]+\.[^.]+$\<close>\<close>

definition TOPIC_OCID_PATTERN :: "re_item list" where
  "TOPIC_OCID_PATTERN = lits ''ocid1.onstopic.'' @ ocid_tail"

text \<open>\<open>^[a-z0-9]{2}-[a-z0-9]+-\d{1}$\<close>\<close>

definition REGION_PATTERN :: "re_item list" where
  "REGION_PATTERN =
     [One lower_alnum, One lower_alnum, Lit CHR ''-'', Many1 lower_alnum, Lit CHR ''-'',
      One digit, End]"

definition REGION_MAPPING :: "string \<rightharpoonup> string" where
  "REGION_MAPPING = map_of [(''iad'', ''us-ashburn-1''), (''phx'', ''us-phoenix-1'')]"

text \<open>\<open>is_valid_ocid\<close>: \<open>bool(pattern.match(ocid))\<close>.\<close>

definition is_valid_ocid :: "string \<Rightarrow> re_item list \<Rightarrow> bool" where
  "is_valid_ocid ocid pattern = re_match pattern ocid"

text \<open>\<open>normalize_region\<close>; \<open>None\<close> is Python's \<open>None\<close>, the result of \<open>dict.get\<close> on a
  missing key.\<close>

definition normalize_region :: "string \<Rightarrow> string option" where
  "normalize_region region =
     (if re_match REGION_PATTERN region then Some region else REGION_MAPPING region)"

text \<open>\<open>s.split(d)\<close> for a separator of one character: never empty, one field more than
  there are separators.\<close>

fun split_on :: "char \<Rightarrow> string \<Rightarrow> string list" where
  "split_on d [] = [[]]"
| "split_on d (c # cs) =
     (if c = d then [] # split_on d cs
      else (case split_on d cs of [] \<Rightarrow> [[c]] | f # fs \<Rightarrow> (c # f) # fs))"

text \<open>
  The identifier shape in the words of the specification: the fixed prefix, then three
  dot-delimited segments, none of them empty.
\<close>

definition ocid_shape :: "string \<Rightarrow> string \<Rightarrow> bool" where
  "ocid_shape prefix s =
     (take (length prefix) s = prefix \<and>
      (case split_on CHR ''.'' (drop (length prefix) s) of
         [a, b, c] \<Rightarrow> a \<noteq> [] \<and> b \<noteq> [] \<and> c \<noteq> []
       | _ \<Rightarrow> False))"

section \<open>The world outside the script\<close>

text \<open>
  An exception object: a service error of the SDK with its \<open>message\<close> and its \<open>str\<close>, or
  any other subclass of \<open>Exception\<close> with its class name and its \<open>str\<close>.
\<close>

datatype exn = ServiceError string string | Exception string string

fun exn_str :: "exn \<Rightarrow> string" where
  "exn_str (ServiceError m s) = s"
| "exn_str (Exception c s) = s"

text \<open>
  How a computation stops early: an exception that propagates, or \<open>sys.exit(n)\<close>, whose
  \<open>SystemExit\<close> is no subclass of \<open>Exception\<close>. At the top level both end the process;
  the interpreter's status for an uncaught exception is 1.
\<close>

datatype abort = Raised exn | SystemExit nat

fun exit_status :: "abort + 'a \<Rightarrow> nat" where
  "exit_status (Inl (SystemExit n)) = n"
| "exit_status (Inl (Raised e)) = 1"
| "exit_status (Inr x) = 0"

datatype level = INFO | WARNING | ERROR

text \<open>
  The fields the script reads from a protection group (\<open>drpg.data\<close>), from a plan
  summary and from a plan execution. They are strings, as the SDK documents them; the peer
  fields are read only under the role PRIMARY, where the service sets them.
\<close>

record drpg =
  drpg_id :: string
  drpg_display_name :: string
  drpg_role :: string
  drpg_lifecycle_state :: string
  drpg_peer_id :: string
  drpg_peer_region :: string

record plan =
  plan_id :: string
  plan_display_name :: string
  plan_type :: string
  plan_lifecycle_state :: string

record execution =
  execution_id :: string
  execution_lifecycle_state :: string

datatype precheck_options =
  SwitchoverPrecheckExecutionOptionDetails
| FailoverPrecheckExecutionOptionDetails
| StartDrillPrecheckExecutionOptionDetails
| StopDrillPrecheckExecutionOptionDetails

text \<open>The precheck options the loop chooses from, and a published message.\<close>

record message =
  topic_id :: string
  body :: string
  title :: string

text \<open>A client of the SDK is the configuration it was built from and the signer.\<close>

type_synonym client = "string \<times> string"

text \<open>A request sent to the service, with the client that sends it.\<close>

datatype request =
  GetDrProtectionGroup client string
| ListDrPlans client string "string option"
| CreateDrPlanExecution client string precheck_options
| GetDrPlanExecution client string
| WaitUntil client
| PublishMessage client message

text \<open>
  The collaborators the script does not implement: the clock, the log formatter, the file
  system where a file is created (\<open>logging_error\<close> for \<open>mkdir\<close> and the two file handlers
  of \<open>setup_logger\<close>, \<open>write_error\<close> for \<open>write_text\<close>; a missing parent directory, as for
  an identifier that contains a slash, is a \<open>FileNotFoundError\<close>), the SDK's configuration
  loader and the control-plane API. Each answer may depend on the number of
  interactions so far (the first argument), so that a later call may see another answer.
  \<open>Inl e\<close> is the call raising \<open>e\<close>.
\<close>

record env =
  strftime :: "nat \<Rightarrow> string"
  format_record :: "nat \<Rightarrow> level \<Rightarrow> string \<Rightarrow> exn option \<Rightarrow> string"
  logging_error :: "nat \<Rightarrow> string \<Rightarrow> string \<Rightarrow> exn option"
  write_error :: "nat \<Rightarrow> string \<Rightarrow> exn option"
  instance_principals_signer :: "nat \<Rightarrow> exn + string"
  config_from_file :: "string option \<Rightarrow> exn + string"
  get_dr_protection_group :: "nat \<Rightarrow> client \<Rightarrow> string \<Rightarrow> exn + drpg"
  list_dr_plans :: "nat \<Rightarrow> client \<Rightarrow> string \<Rightarrow> string option \<Rightarrow> exn + plan list"
  create_dr_plan_execution ::
    "nat \<Rightarrow> client \<Rightarrow> string \<Rightarrow> precheck_options \<Rightarrow> exn + execution"
  get_dr_plan_execution :: "nat \<Rightarrow> client \<Rightarrow> string \<Rightarrow> exn + execution"
  wait_until_execution :: "nat \<Rightarrow> client \<Rightarrow> execution \<Rightarrow> string \<Rightarrow> string \<Rightarrow> exn option"
  wait_until_drpg :: "nat \<Rightarrow> client \<Rightarrow> drpg option \<Rightarrow> string \<Rightarrow> string \<Rightarrow> exn option"
  publish_message :: "nat \<Rightarrow> client \<Rightarrow> message \<Rightarrow> exn option"

text \<open>
  What the script changes: the files under the base directory (path to contents), the
  error log of the run (\<open>None\<close> while the file does not exist), the records handed to the
  logger, the requests sent to the service, the messages published and the plan executions
  created.
\<close>

record world =
  tick :: nat
  files :: "string \<rightharpoonup> string"
  error_log :: "string option"
  logged :: "(level \<times> string) list"
  requests :: "request list"
  published :: "message list"
  executions :: "(string \<times> precheck_options) list"

type_synonym 'a prog = "world \<Rightarrow> (abort + 'a) \<times> world"

definition ok :: "'a \<Rightarrow> 'a prog" where
  "ok x st = (Inr x, st)"

definition raise :: "exn \<Rightarrow> 'a prog" where
  "raise e st = (Inl (Raised e), st)"

definition sys_exit :: "nat \<Rightarrow> 'a prog" where
  "sys_exit n st = (Inl (SystemExit n), st)"

definition chain :: "'a prog \<Rightarrow> ('a \<Rightarrow> 'b prog) \<Rightarrow> 'b prog" where
  "chain m f st = (case m st of (Inl a, st') \<Rightarrow> (Inl a, st') | (Inr x, st') \<Rightarrow> f x st')"

text \<open>\<open>try: m except Exception as e: h e\<close>; a \<open>SystemExit\<close> passes through.\<close>

definition try_except :: "'a prog \<Rightarrow> (exn \<Rightarrow> 'a prog) \<Rightarrow> 'a prog" where
  "try_except m h st =
     (case m st of
        (Inl (Raised e), st') \<Rightarrow> h e st'
      | (Inl (SystemExit n), st') \<Rightarrow> (Inl (SystemExit n), st')
      | (Inr x, st') \<Rightarrow> (Inr x, st'))"

text \<open>One interaction with a collaborator.\<close>

definition call :: "(nat \<Rightarrow> exn + 'a) \<Rightarrow> 'a prog" where
  "call f st =
     (case f (tick st) of
        Inl e \<Rightarrow> (Inl (Raised e), st\<lparr>tick := tick st + 1\<rparr>)
      | Inr x \<Rightarrow> (Inr x, st\<lparr>tick := tick st + 1\<rparr>))"

text \<open>One request to the service: the request is sent, then the service answers.\<close>

definition api :: "request \<Rightarrow> (nat \<Rightarrow> exn + 'a) \<Rightarrow> 'a prog" where
  "api r f st =
     (case f (tick st) of
        Inl e \<Rightarrow> (Inl (Raised e), st\<lparr>tick := tick st + 1, requests := requests st @ [r]\<rparr>)
      | Inr x \<Rightarrow> (Inr x, st\<lparr>tick := tick st + 1, requests := requests st @ [r]\<rparr>))"

definition api_unit :: "request \<Rightarrow> (nat \<Rightarrow> exn option) \<Rightarrow> unit prog" where
  "api_unit r f = api r (\<lambda>t. case f t of None \<Rightarrow> Inr () | Some e \<Rightarrow> Inl e)"

section \<open>Logging and files\<close>

text \<open>
  \<open>setup_logger\<close>: \<open>mkdir\<close> or the opening of a log file may raise, and then no error log
  exists. Otherwise the handler of the error log has opened its file in append mode, which
  creates it; the result is the path of that file. The handler keeps only records of level
  ERROR.
\<close>

definition setup_logger :: "env \<Rightarrow> string \<Rightarrow> string \<Rightarrow> string prog" where
  "setup_logger env drpg_ocid base_dir st =
     (case logging_error env (tick st) base_dir drpg_ocid of
        Some e \<Rightarrow> (Inl (Raised e), st\<lparr>tick := tick st + 1\<rparr>)
      | None \<Rightarrow>
          (Inr (base_dir @ ''/logs/'' @ drpg_ocid @ ''_'' @ strftime env (tick st) @
                  ''_error.log''),
           st\<lparr>tick := tick st + 1,
              error_log := Some (case error_log st of None \<Rightarrow> [] | Some c \<Rightarrow> c)\<rparr>))"

definition logger_log :: "env \<Rightarrow> level \<Rightarrow> string \<Rightarrow> exn option \<Rightarrow> unit prog" where
  "logger_log env lv msg exc st =
     (Inr (), st\<lparr>tick := tick st + 1,
                 logged := logged st @ [(lv, msg)],
                 error_log :=
                   (if lv = ERROR
                    then map_option (\<lambda>c. c @ format_record env (tick st) lv msg exc)
                           (error_log st)
                    else error_log st)\<rparr>)"

definition region_path :: "string \<Rightarrow> string \<Rightarrow> string \<Rightarrow> string" where
  "region_path base_dir ocid ts = base_dir @ ''/'' @ ocid @ ''.'' @ ts"

definition region_text :: "string \<Rightarrow> string" where
  "region_text region = ''[REGION]'' @ [CHR 0x0A] @ ''region = '' @ region @ [CHR 0x0A]"

text \<open>\<open>Path.write_text\<close>: the file system may refuse to create the file.\<close>

definition write_text :: "env \<Rightarrow> string \<Rightarrow> string \<Rightarrow> unit prog" where
  "write_text env p text st =
     (case write_error env (tick st) p of
        Some e \<Rightarrow> (Inl (Raised e), st\<lparr>tick := tick st + 1\<rparr>)
      | None \<Rightarrow> (Inr (), st\<lparr>tick := tick st + 1, files := (files st)(p \<mapsto> text)\<rparr>))"

definition prepare_region_file :: "env \<Rightarrow> string \<Rightarrow> string \<Rightarrow> string \<Rightarrow> string prog" where
  "prepare_region_file env region base_dir ocid =
     chain (call (\<lambda>t. Inr (strftime env t))) (\<lambda>ts.
     chain (write_text env (region_path base_dir ocid ts) (region_text region)) (\<lambda>_.
     ok (region_path base_dir ocid ts)))"

text \<open>\<open>Path.unlink()\<close>: a missing file raises.\<close>

definition unlink :: "string \<Rightarrow> unit prog" where
  "unlink p st =
     (case files st p of
        None \<Rightarrow>
          (Inl (Raised (Exception ''FileNotFoundError''
             (''[Errno 2] No such file or directory: '' @ [CHR 0x27] @ p @ [CHR 0x27]))), st)
      | Some c \<Rightarrow> (Inr (), st\<lparr>files := (files st)(p := None)\<rparr>))"

text \<open>\<open>oci.config.from_file(str(region_file), profile_name="REGION")\<close>\<close>

definition from_file :: "env \<Rightarrow> string \<Rightarrow> string prog" where
  "from_file env p st =
     (case config_from_file env (files st p) of
        Inl e \<Rightarrow> (Inl (Raised e), st)
      | Inr config \<Rightarrow> (Inr config, st))"

text \<open>The truth value of an optional string: \<open>None\<close> and the empty string are false.\<close>

definition truthy :: "string option \<Rightarrow> bool" where
  "truthy t = (case t of None \<Rightarrow> False | Some s \<Rightarrow> s \<noteq> [])"

definition py_str :: "string option \<Rightarrow> string" where
  "py_str t = (case t of None \<Rightarrow> ''None'' | Some s \<Rightarrow> s)"

text \<open>\<open>xs[i]\<close> on a list.\<close>

definition index :: "string list \<Rightarrow> nat \<Rightarrow> string prog" where
  "index xs i =
     (if i < length xs then ok (xs ! i)
      else raise (Exception ''IndexError'' ''list index out of range''))"

definition errno2 :: "string \<Rightarrow> exn" where
  "errno2 p =
     Exception ''FileNotFoundError''
       (''[Errno 2] No such file or directory: '' @ [CHR 0x27] @ p @ [CHR 0x27])"

text \<open>\<open>error_log.read_text()\<close>\<close>

definition read_text :: "string \<Rightarrow> string prog" where
  "read_text error_log_path st =
     (case error_log st of
        None \<Rightarrow> (Inl (Raised (errno2 error_log_path)), st)
      | Some c \<Rightarrow> (Inr c, st))"

text \<open>The decimal numeral of \<open>len(...)\<close> inside an f-string.\<close>

fun str_nat :: "nat \<Rightarrow> string" where
  "str_nat n =
     (if n < 10 then [char_of (48 + n)]
      else str_nat (n div 10) @ [char_of (48 + n mod 10)])"

declare str_nat.simps [simp del]

section \<open>The control-plane facade\<close>

definition get_drpg_details :: "env \<Rightarrow> string \<Rightarrow> client \<Rightarrow> drpg option prog" where
  "get_drpg_details env drpg_ocid client =
     try_except
       (chain (api (GetDrProtectionGroup client drpg_ocid)
                 (\<lambda>t. get_dr_protection_group env t client drpg_ocid)) (\<lambda>g.
        ok (Some g)))
       (\<lambda>e. chain
          (logger_log env ERROR
             (case e of
                ServiceError m s \<Rightarrow> ''Service error: '' @ m
              | Exception c s \<Rightarrow> ''Unexpected error: '' @ s)
             (Some e)) (\<lambda>_.
          ok None))"

definition transitional_states :: "string set" where
  "transitional_states = {''CREATING'', ''UPDATING'', ''DELETING''}"

text \<open>What \<open>list_active_dr_plans\<close> returns: a lifecycle state (a \<open>str\<close>), the list of
  active plans, or \<open>None\<close>.\<close>

datatype plans_result = PlanState string | PlanList "plan list" | PlanNone

text \<open>The loop of lines 140 to 143, which returns from the function at the first plan in a
  transitional state.\<close>

fun scan_transitional :: "env \<Rightarrow> plan list \<Rightarrow> string option prog" where
  "scan_transitional env [] = ok None"
| "scan_transitional env (p # ps) =
     (if plan_lifecycle_state p \<in> transitional_states
      then chain
             (logger_log env ERROR
                (''Found transitional plan: '' @ plan_display_name p @ '' in state '' @
                 plan_lifecycle_state p) None) (\<lambda>_.
           ok (Some (plan_lifecycle_state p)))
      else scan_transitional env ps)"

definition list_active_dr_plans :: "env \<Rightarrow> string \<Rightarrow> client \<Rightarrow> plans_result prog" where
  "list_active_dr_plans env drpg_ocid client =
     try_except
       (chain (api (ListDrPlans client drpg_ocid None)
                 (\<lambda>t. list_dr_plans env t client drpg_ocid None)) (\<lambda>all_dr_plans.
        chain (scan_transitional env all_dr_plans) (\<lambda>found.
        case found of
          Some state \<Rightarrow> ok (PlanState state)
        | None \<Rightarrow>
            chain (api (ListDrPlans client drpg_ocid (Some ''ACTIVE''))
                     (\<lambda>t. list_dr_plans env t client drpg_ocid (Some ''ACTIVE'')))
              (\<lambda>active_plans.
            chain (logger_log env INFO
                     (''Found '' @ str_nat (length active_plans) @ '' active DR plans.'') None)
              (\<lambda>_.
            ok (PlanList active_plans))))))
       (\<lambda>e. chain
          (logger_log env ERROR (''Failed to list DR plans: '' @ exn_str e) (Some e)) (\<lambda>_.
          ok PlanNone))"

text \<open>\<open>client.publish_message\<close>: the message is published when the call does not raise.\<close>

definition publish :: "env \<Rightarrow> client \<Rightarrow> message \<Rightarrow> unit prog" where
  "publish env client m st =
     (case publish_message env (tick st) client m of
        Some e \<Rightarrow>
          (Inl (Raised e),
           st\<lparr>tick := tick st + 1, requests := requests st @ [PublishMessage client m]\<rparr>)
      | None \<Rightarrow>
          (Inr (),
           st\<lparr>tick := tick st + 1, requests := requests st @ [PublishMessage client m],
              published := published st @ [m]\<rparr>))"

text \<open>\<open>dr_client.create_dr_plan_execution\<close>: the execution exists when the call does not
  raise.\<close>

definition create_execution ::
  "env \<Rightarrow> client \<Rightarrow> string \<Rightarrow> precheck_options \<Rightarrow> execution prog" where
  "create_execution env client pid options st =
     (case create_dr_plan_execution env (tick st) client pid options of
        Inl e \<Rightarrow>
          (Inl (Raised e),
           st\<lparr>tick := tick st + 1,
              requests := requests st @ [CreateDrPlanExecution client pid options]\<rparr>)
      | Inr x \<Rightarrow>
          (Inr x,
           st\<lparr>tick := tick st + 1,
              requests := requests st @ [CreateDrPlanExecution client pid options],
              executions := executions st @ [(pid, options)]\<rparr>))"

section \<open>The notifier\<close>

definition send_notification ::
  "env \<Rightarrow> string \<Rightarrow> string \<Rightarrow> string \<Rightarrow> string \<Rightarrow> string \<Rightarrow> string \<Rightarrow> unit prog" where
  "send_notification env signer drpg_name drpg_ocid topic_ocid error_log_path base_dir =
     try_except
       (chain (read_text error_log_path) (\<lambda>text.
        chain (index (split_on CHR ''.'' topic_ocid) 3) (\<lambda>topic_region_code.
        if \<not> truthy (normalize_region topic_region_code)
        then chain
               (logger_log env ERROR ''Unable to determine valid region for the topic.'' None)
               (\<lambda>_. sys_exit 1)
        else
        chain (prepare_region_file env (py_str (normalize_region topic_region_code)) base_dir
                 topic_ocid) (\<lambda>region_file.
        chain (from_file env region_file) (\<lambda>config.
        chain (publish env (config, signer)
                 \<lparr>topic_id = topic_ocid,
                  body = drpg_name @ '': '' @ drpg_ocid @ [CHR 0x0A, CHR 0x0A] @ text,
                  title = ''FSDR Precheck Failed for '' @ drpg_name @ '' - '' @ drpg_ocid\<rparr>)
          (\<lambda>_.
        unlink region_file))))))
       (\<lambda>e. logger_log env ERROR (''Failed to send notification: '' @ exn_str e) (Some e))"

section \<open>The orchestrator\<close>

datatype DrPlanType = SWITCHOVER | FAILOVER | START_DRILL | STOP_DRILL

fun DrPlanType_value :: "DrPlanType \<Rightarrow> string" where
  "DrPlanType_value SWITCHOVER = ''SWITCHOVER''"
| "DrPlanType_value FAILOVER = ''FAILOVER''"
| "DrPlanType_value START_DRILL = ''START_DRILL''"
| "DrPlanType_value STOP_DRILL = ''STOP_DRILL''"

text \<open>
  \<open>DrPlanType(plan.type)\<close>: the member with that value, or a \<open>ValueError\<close>. Its text
  quotes the value as \<open>repr\<close> does for a string of printable characters without quotes
  or backslashes.
\<close>

definition DrPlanType_of :: "string \<Rightarrow> DrPlanType prog" where
  "DrPlanType_of v =
     (if v = ''SWITCHOVER'' then ok SWITCHOVER
      else if v = ''FAILOVER'' then ok FAILOVER
      else if v = ''START_DRILL'' then ok START_DRILL
      else if v = ''STOP_DRILL'' then ok STOP_DRILL
      else raise (Exception ''ValueError''
                   ([CHR 0x27] @ v @ [CHR 0x27] @ '' is not a valid DrPlanType'')))"

text \<open>
  The block that ends six branches of \<open>run_prechecks\<close> (lines 208 to 211, 219 to 222,
  238 to 241, 251 to 254, 260 to 263 and 267 to 270): delete the region file, notify when
  the topic identifier is true, exit with status 1.
\<close>

definition unlink_notify_exit ::
  "env \<Rightarrow> string \<Rightarrow> string option \<Rightarrow> string \<Rightarrow> string \<Rightarrow> string \<Rightarrow> string \<Rightarrow> string \<Rightarrow>
   'a prog" where
  "unlink_notify_exit env region_file topic_ocid signer name ocid error_log_path base_dir =
     chain (unlink region_file) (\<lambda>_.
     chain (if truthy topic_ocid
            then send_notification env signer name ocid (the topic_ocid) error_log_path
                   base_dir
            else ok ()) (\<lambda>_.
     sys_exit 1))"

text \<open>The body of the loop over the active plans, lines 273 to 302.\<close>

definition precheck_plan :: "env \<Rightarrow> client \<Rightarrow> string \<Rightarrow> plan \<Rightarrow> unit prog" where
  "precheck_plan env dr_client standby_ocid p =
     chain (DrPlanType_of (plan_type p)) (\<lambda>pt.
     chain (logger_log env INFO
              (''Running precheck for '' @ DrPlanType_value pt @ '' plan: '' @
               plan_display_name p) None) (\<lambda>_.
     chain (if pt = SWITCHOVER then ok SwitchoverPrecheckExecutionOptionDetails
            else if pt = FAILOVER then ok FailoverPrecheckExecutionOptionDetails
            else if pt = START_DRILL then ok StartDrillPrecheckExecutionOptionDetails
            else if pt = STOP_DRILL then ok StopDrillPrecheckExecutionOptionDetails
            else chain (logger_log env ERROR (''Unknown plan type: '' @ plan_type p) None)
                   (\<lambda>_. sys_exit 1)) (\<lambda>options.
     chain (create_execution env dr_client (plan_id p) options) (\<lambda>execution.
     chain (api (GetDrPlanExecution dr_client (execution_id execution))
              (\<lambda>t. get_dr_plan_execution env t dr_client (execution_id execution)))
       (\<lambda>response.
     chain (api_unit (WaitUntil dr_client)
              (\<lambda>t. wait_until_execution env t dr_client response
                     ''lifecycle_state'' ''IN_PROGRESS'')) (\<lambda>_.
     chain (get_drpg_details env standby_ocid dr_client) (\<lambda>g.
     chain (api_unit (WaitUntil dr_client)
              (\<lambda>t. wait_until_drpg env t dr_client g ''lifecycle_state'' ''ACTIVE''))
       (\<lambda>_.
     chain (api (GetDrPlanExecution dr_client (execution_id execution))
              (\<lambda>t. get_dr_plan_execution env t dr_client (execution_id execution)))
       (\<lambda>final_status.
     if execution_lifecycle_state final_status = ''SUCCEEDED''
     then logger_log env INFO (''Precheck passed: '' @ plan_display_name p) None
     else logger_log env ERROR (''Precheck failed: '' @ plan_display_name p) None)))))))))"

fun precheck_plans :: "env \<Rightarrow> client \<Rightarrow> string \<Rightarrow> plan list \<Rightarrow> unit prog" where
  "precheck_plans env dr_client standby_ocid [] = ok ()"
| "precheck_plans env dr_client standby_ocid (p # ps) =
     chain (precheck_plan env dr_client standby_ocid p) (\<lambda>_.
     precheck_plans env dr_client standby_ocid ps)"

text \<open>\<open>len(dr_plans)\<close>\<close>

definition py_len :: "plans_result \<Rightarrow> nat prog" where
  "py_len r =
     (case r of
        PlanState s \<Rightarrow> ok (length s)
      | PlanList ps \<Rightarrow> ok (length ps)
      | PlanNone \<Rightarrow>
          raise (Exception ''TypeError''
                   (''object of type '' @ [CHR 0x27] @ ''NoneType'' @ [CHR 0x27] @
                    '' has no len()'')))"

text \<open>
  Lines 186 to 204: the logger, validation, the region and the first client. The result is
  the region file, the signer, the configuration and the path of the error log.
\<close>

definition run_prechecks_connect ::
  "env \<Rightarrow> string \<Rightarrow> string option \<Rightarrow> string \<Rightarrow> (string \<times> string \<times> string \<times> string) prog"
  where
  "run_prechecks_connect env drpg_ocid topic_ocid base_dir =
     chain (setup_logger env drpg_ocid base_dir) (\<lambda>error_log.
     if \<not> is_valid_ocid drpg_ocid DRPG_OCID_PATTERN
     then chain (logger_log env ERROR (''Invalid DRPG OCID format: '' @ drpg_ocid) None)
            (\<lambda>_. sys_exit 1)
     else if truthy topic_ocid \<and> \<not> is_valid_ocid (the topic_ocid) TOPIC_OCID_PATTERN
     then chain (logger_log env ERROR
                   (''Invalid Notification Topic OCID format: '' @ the topic_ocid) None)
            (\<lambda>_. sys_exit 1)
     else
     chain (index (split_on CHR ''.'' drpg_ocid) 3) (\<lambda>code.
     if \<not> truthy (normalize_region code)
     then chain (logger_log env ERROR ''Unable to determine region for DRPG.'' None)
            (\<lambda>_. sys_exit 1)
     else
     chain (prepare_region_file env (py_str (normalize_region code)) base_dir drpg_ocid)
       (\<lambda>region_file.
     chain (call (instance_principals_signer env)) (\<lambda>signer.
     chain (from_file env region_file) (\<lambda>config.
     ok (region_file, signer, config, error_log))))))"

text \<open>The local variables of \<open>run_prechecks\<close> that are live at line 243.\<close>

record locals =
  region_file :: string
  signer :: string
  dr_client :: client
  standby :: drpg
  error_log_path :: string

text \<open>Lines 206 to 241: the first fetch, the role check and the switch to the peer.\<close>

definition run_prechecks_role ::
  "env \<Rightarrow> string \<Rightarrow> string option \<Rightarrow> string \<Rightarrow> string \<times> string \<times> string \<times> string \<Rightarrow>
   locals prog" where
  "run_prechecks_role env drpg_ocid topic_ocid base_dir =
     (\<lambda>(region_file, signer, config, error_log).
     chain (get_drpg_details env drpg_ocid (config, signer)) (\<lambda>drpg.
     case drpg of
       None \<Rightarrow>
         unlink_notify_exit env region_file topic_ocid signer [] drpg_ocid error_log base_dir
     | Some g \<Rightarrow>
         if drpg_role g = ''UNCONFIGURED''
         then chain (logger_log env ERROR ''DRPG is unconfigured.'' None) (\<lambda>_.
              unlink_notify_exit env region_file topic_ocid signer (drpg_display_name g)
                drpg_ocid error_log base_dir)
         else if drpg_role g = ''PRIMARY''
         then
           chain (logger_log env WARNING ''DRPG is PRIMARY, switching to PEER.'' None) (\<lambda>_.
           chain (unlink region_file) (\<lambda>_.
           if \<not> truthy (normalize_region (drpg_peer_region g))
           then chain (logger_log env ERROR ''Unknown peer region.'' None) (\<lambda>_.
                chain (unlink region_file) (\<lambda>_.
                sys_exit 1))
           else
           chain (prepare_region_file env (py_str (normalize_region (drpg_peer_region g)))
                    base_dir (drpg_peer_id g)) (\<lambda>peer_file.
           chain (from_file env peer_file) (\<lambda>peer_config.
           chain (get_drpg_details env (drpg_peer_id g) (peer_config, signer)) (\<lambda>peer.
           case peer of
             None \<Rightarrow>
               chain (logger_log env ERROR ''Failed to get peer DRPG details.'' None) (\<lambda>_.
               unlink_notify_exit env peer_file topic_ocid signer [] (drpg_peer_id g)
                 error_log base_dir)
           | Some g' \<Rightarrow>
               ok \<lparr>region_file = peer_file, signer = signer,
                   dr_client = (peer_config, signer), standby = g',
                   error_log_path = error_log\<rparr>)))))
         else ok \<lparr>region_file = region_file, signer = signer, dr_client = (config, signer),
                  standby = g, error_log_path = error_log\<rparr>))"

text \<open>Lines 186 to 241.\<close>

definition run_prechecks_resolve ::
  "env \<Rightarrow> string \<Rightarrow> string option \<Rightarrow> string \<Rightarrow> locals prog" where
  "run_prechecks_resolve env drpg_ocid topic_ocid base_dir =
     chain (run_prechecks_connect env drpg_ocid topic_ocid base_dir)
       (run_prechecks_role env drpg_ocid topic_ocid base_dir)"

text \<open>Lines 304 to 310.\<close>

definition finalize :: "env \<Rightarrow> string option \<Rightarrow> string \<Rightarrow> locals \<Rightarrow> unit prog" where
  "finalize env topic_ocid base_dir l =
     chain (\<lambda>st. (if (case error_log st of None \<Rightarrow> False | Some c \<Rightarrow> 0 < length c) \<and>
                      truthy topic_ocid
                   then send_notification env (signer l) (drpg_display_name (standby l))
                          (drpg_id (standby l)) (the topic_ocid) (error_log_path l) base_dir
                   else ok ()) st) (\<lambda>_.
     chain (\<lambda>st. (if files st (region_file l) \<noteq> None then unlink (region_file l) else ok ())
                   st) (\<lambda>_.
     (\<lambda>st. (Inr (), st\<lparr>error_log := None\<rparr>))))"

text \<open>Lines 258 to 310: what the orchestrator does with the result of the listing.\<close>

definition run_prechecks_plans ::
  "env \<Rightarrow> string option \<Rightarrow> string \<Rightarrow> locals \<Rightarrow> plans_result \<Rightarrow> unit prog" where
  "run_prechecks_plans env topic_ocid base_dir l dr_plans =
     chain (py_len dr_plans) (\<lambda>n.
     if n = 0
     then chain (logger_log env ERROR
                   (''No Active DR plans found in '' @ drpg_display_name (standby l) @ ''.'')
                   None) (\<lambda>_.
          unlink_notify_exit env (region_file l) topic_ocid (signer l)
            (drpg_display_name (standby l)) (drpg_id (standby l)) (error_log_path l) base_dir)
     else
     case dr_plans of
       PlanState s \<Rightarrow>
         chain (logger_log env ERROR (''First transitional state found: '' @ s) None) (\<lambda>_.
         unlink_notify_exit env (region_file l) topic_ocid (signer l)
           (drpg_display_name (standby l)) (drpg_id (standby l)) (error_log_path l) base_dir)
     | PlanList ps \<Rightarrow>
         chain (precheck_plans env (dr_client l) (drpg_id (standby l)) ps) (\<lambda>_.
         finalize env topic_ocid base_dir l)
     | PlanNone \<Rightarrow> ok ())"

text \<open>Lines 243 to 256: the check on the standby view and the enumeration.\<close>

definition run_prechecks_standby ::
  "env \<Rightarrow> string option \<Rightarrow> string \<Rightarrow> locals \<Rightarrow> unit prog" where
  "run_prechecks_standby env topic_ocid base_dir l =
     chain (logger_log env INFO
              (''Standby DRPG: '' @ drpg_display_name (standby l) @ '' ('' @
               drpg_id (standby l) @ '') is '' @ drpg_lifecycle_state (standby l)) None) (\<lambda>_.
     if drpg_lifecycle_state (standby l) \<noteq> ''ACTIVE''
     then chain (logger_log env ERROR ''Standby DRPG is not active.'' None) (\<lambda>_.
          unlink_notify_exit env (region_file l) topic_ocid (signer l)
            (drpg_display_name (standby l)) (drpg_id (standby l)) (error_log_path l) base_dir)
     else
     chain (list_active_dr_plans env (drpg_id (standby l)) (dr_client l))
       (run_prechecks_plans env topic_ocid base_dir l))"

text \<open>\<open>run_prechecks\<close>, lines 185 to 310, as the sequence of its parts.\<close>

definition run_prechecks :: "env \<Rightarrow> string \<Rightarrow> string option \<Rightarrow> string \<Rightarrow> unit prog" where
  "run_prechecks env drpg_ocid topic_ocid base_dir =
     chain (run_prechecks_resolve env drpg_ocid topic_ocid base_dir)
       (run_prechecks_standby env topic_ocid base_dir)"

section \<open>A concrete environment\<close>

text \<open>
  A service in which every call succeeds: the clock stands still, every file can be
  created, the loader returns the
  text of the file, every fetch of a protection group returns \<open>g\<close> (or \<open>g'\<close> when the peer
  identifier of \<open>g\<close> is asked for), every listing returns \<open>ps\<close>, and every execution is found
  \<open>SUCCEEDED\<close>.
\<close>

definition test_env :: "drpg \<Rightarrow> drpg \<Rightarrow> plan list \<Rightarrow> env" where
  "test_env g g' ps =
     \<lparr>strftime = (\<lambda>t. ''20250101000000''),
      format_record = (\<lambda>t lv msg exc. ''ERROR - '' @ msg @ [CHR 0x0A]),
      logging_error = (\<lambda>t base_dir ocid. None),
      write_error = (\<lambda>t p. None),
      instance_principals_signer = (\<lambda>t. Inr ''signer''),
      config_from_file =
        (\<lambda>c. case c of
               None \<Rightarrow> Inl (Exception ''ConfigFileNotFound'' ''no config file'')
             | Some text \<Rightarrow> Inr text),
      get_dr_protection_group = (\<lambda>t c ocid. Inr (if ocid = drpg_peer_id g then g' else g)),
      list_dr_plans = (\<lambda>t c ocid state. Inr ps),
      create_dr_plan_execution =
        (\<lambda>t c pid options.
           Inr \<lparr>execution_id = ''exec.'' @ pid, execution_lifecycle_state = ''ACCEPTED''\<rparr>),
      get_dr_plan_execution =
        (\<lambda>t c eid. Inr \<lparr>execution_id = eid, execution_lifecycle_state = ''SUCCEEDED''\<rparr>),
      wait_until_execution = (\<lambda>t c r property state. None),
      wait_until_drpg = (\<lambda>t c r property state. None),
      publish_message = (\<lambda>t c m. None)\<rparr>"

definition world0 :: world where
  "world0 =
     \<lparr>tick = 0, files = Map.empty, error_log = None, logged = [], requests = [],
      published = [], executions = []\<rparr>"

definition standby_group :: drpg where
  "standby_group =
     \<lparr>drpg_id = ''ocid1.drprotectiongroup.oc1.phx.bbb'', drpg_display_name = ''standby'',
      drpg_role = ''STANDBY'', drpg_lifecycle_state = ''ACTIVE'',
      drpg_peer_id = ''ocid1.drprotectiongroup.oc1.iad.aaa'', drpg_peer_region = ''us-ashburn-1''\<rparr>"

definition primary_group :: drpg where
  "primary_group =
     \<lparr>drpg_id = ''ocid1.drprotectiongroup.oc1.iad.aaa'', drpg_display_name = ''primary'',
      drpg_role = ''PRIMARY'', drpg_lifecycle_state = ''ACTIVE'',
      drpg_peer_id = ''ocid1.drprotectiongroup.oc1.phx.bbb'', drpg_peer_region = ''us-phoenix-1''\<rparr>"

definition test_plan :: "string \<Rightarrow> string \<Rightarrow> plan" where
  "test_plan n ty =
     \<lparr>plan_id = ''ocid1.drplan.oc1.phx.'' @ n, plan_display_name = n, plan_type = ty,
      plan_lifecycle_state = ''ACTIVE''\<rparr>"

definition updating_plan :: plan where
  "updating_plan =
     \<lparr>plan_id = ''ocid1.drplan.oc1.phx.u'', plan_display_name = ''u'',
      plan_type = ''SWITCHOVER'', plan_lifecycle_state = ''UPDATING''\<rparr>"

text \<open>The world after the logger has written one record to the error log.\<close>

definition world1 :: world where
  "world1 = world0\<lparr>error_log := Some ''ERROR - DRPG is unconfigured.''\<rparr>"

text \<open>The same service with the notification endpoint down.\<close>

definition down_env :: env where
  "down_env =
     (test_env standby_group primary_group [])
       \<lparr>publish_message := (\<lambda>t c m. Some (ServiceError ''down'' ''503 down''))\<rparr>"

definition unknown_type_plans :: "plan list" where
  "unknown_type_plans =
     [test_plan ''p1'' ''SWITCHOVER'', test_plan ''p2'' ''MAINTENANCE'',
      test_plan ''p3'' ''FAILOVER'']"

definition standby_locals :: locals where
  "standby_locals =
     \<lparr>region_file = ''/opt/ocid1.drprotectiongroup.oc1.phx.bbb.20250101000000'',
      signer = ''signer'', dr_client = (region_text ''us-phoenix-1'', ''signer''),
      standby = standby_group,
      error_log_path =
        ''/opt/logs/ocid1.drprotectiongroup.oc1.phx.bbb_20250101000000_error.log''\<rparr>"

definition listing_down_env :: env where
  "listing_down_env =
     (test_env standby_group primary_group [])
       \<lparr>list_dr_plans := (\<lambda>t c ocid state. Inl (ServiceError ''down'' ''503 down''))\<rparr>"





section \<open>Notions used in the statements\<close>

text \<open>
  A request belongs to the standby view (the client \<open>c\<close> and the group identifier \<open>sid\<close>)
  when it goes through \<open>c\<close> and, where it names a protection group, names \<open>sid\<close>. The
  notifier publishes through a client of its own.
\<close>

fun addressed :: "client \<Rightarrow> string \<Rightarrow> request \<Rightarrow> bool" where
  "addressed c sid (GetDrProtectionGroup c' ocid) = (c' = c \<and> ocid = sid)"
| "addressed c sid (ListDrPlans c' ocid state) = (c' = c \<and> ocid = sid)"
| "addressed c sid (CreateDrPlanExecution c' pid options) = (c' = c)"
| "addressed c sid (GetDrPlanExecution c' eid) = (c' = c)"
| "addressed c sid (WaitUntil c') = (c' = c)"
| "addressed c sid (PublishMessage c' m) = True"

text \<open>
  The world \<open>st'\<close> continues the world \<open>st\<close> for the standby view: the requests sent in
  between all belong to the view, and no log record was taken back.
\<close>

definition continues :: "client \<Rightarrow> string \<Rightarrow> world \<Rightarrow> world \<Rightarrow> bool" where
  "continues c sid st st' =
     ((\<exists>xs. requests st' = requests st @ xs \<and> list_all (addressed c sid) xs) \<and>
      (\<exists>ys. logged st' = logged st @ ys))"


section \<open>Identifier validation and region resolution\<close>

lemma re_match_lits:
  "re_match (lits p @ r) s = (take (length p) s = p \<and> re_match r (drop (length p) s))"
proof (induction p arbitrary: s)
  case Nil
  show ?case by (simp add: lits_def)
next
  case (Cons a p)
  then show ?case by (cases s) (auto simp: lits_def Lit_def)
qed

lemma split_on_not_Nil: "split_on d s \<noteq> []"
  by (induction s) (auto split: list.splits)

lemma split_on_takeWhile:
  "split_on d s =
     takeWhile (\<lambda>c. c \<noteq> d) s #
       (case dropWhile (\<lambda>c. c \<noteq> d) s of [] \<Rightarrow> [] | x # u \<Rightarrow> split_on d u)"
proof (induction s)
  case Nil
  show ?case by simp
next
  case (Cons c s)
  then show ?case using split_on_not_Nil [of d s] by (auto split: list.splits)
qed

lemma re_match_segment:
  "re_match (Many1 not_dot # Lit CHR ''.'' # r) s =
     (takeWhile (\<lambda>c. c \<noteq> CHR ''.'') s \<noteq> [] \<and>
      (case dropWhile (\<lambda>c. c \<noteq> CHR ''.'') s of [] \<Rightarrow> False | x # u \<Rightarrow> re_match r u))"
proof (induction s)
  case Nil
  show ?case by simp
next
  case (Cons c s)
  then show ?case by (cases s) (auto simp: not_dot_def Lit_def split: list.splits)
qed

lemma re_match_last_segment:
  "re_match [Many1 not_dot, End] s = (s \<noteq> [] \<and> dropWhile (\<lambda>c. c \<noteq> CHR ''.'') s = [])"
proof (induction s)
  case Nil
  show ?case by simp
next
  case (Cons c s)
  then show ?case by (cases s) (auto simp: not_dot_def)
qed

lemma re_match_ocid_tail:
  "re_match ocid_tail s =
     (case split_on CHR ''.'' s of [a, b, c] \<Rightarrow> a \<noteq> [] \<and> b \<noteq> [] \<and> c \<noteq> [] | _ \<Rightarrow> False)"
proof (cases "dropWhile (\<lambda>c. c \<noteq> CHR ''.'') s")
  case Nil
  show ?thesis
    by (simp add: ocid_tail_def re_match_segment split_on_takeWhile [of _ s] Nil
        del: dropWhile_eq_Nil_conv)
next
  case s: (Cons x u)
  show ?thesis
  proof (cases "dropWhile (\<lambda>c. c \<noteq> CHR ''.'') u")
    case Nil
    show ?thesis
      by (simp add: ocid_tail_def re_match_segment split_on_takeWhile [of _ s]
          split_on_takeWhile [of _ u] s Nil del: dropWhile_eq_Nil_conv)
  next
    case u: (Cons y v)
    show ?thesis
    proof (cases "dropWhile (\<lambda>c. c \<noteq> CHR ''.'') v")
      case Nil
      then have tw: "takeWhile (\<lambda>c. c \<noteq> CHR ''.'') v = v"
        using takeWhile_dropWhile_id [of "\<lambda>c. c \<noteq> CHR ''.''" v] by simp
      show ?thesis
        by (simp add: ocid_tail_def re_match_segment re_match_last_segment
            split_on_takeWhile [of _ s] split_on_takeWhile [of _ u]
            split_on_takeWhile [of _ v] s u Nil tw del: dropWhile_eq_Nil_conv)
    next
      case v: (Cons z w)
      show ?thesis
        using split_on_not_Nil [of "CHR ''.''" w]
        by (simp add: ocid_tail_def re_match_segment re_match_last_segment
            split_on_takeWhile [of _ s] split_on_takeWhile [of _ u]
            split_on_takeWhile [of _ v] s u v del: dropWhile_eq_Nil_conv
            split: list.splits)
    qed
  qed
qed

text \<open>
  C10. For every string, the identifier validator returns true exactly when the string has
  the fixed identifier shape: the fixed prefix followed by three dot-delimited segments,
  none empty. This holds for the protection-group pattern and for the topic pattern.
\<close>

theorem is_valid_ocid_iff_shape:
  "is_valid_ocid s DRPG_OCID_PATTERN = ocid_shape ''ocid1.drprotectiongroup.'' s \<and>
   is_valid_ocid s TOPIC_OCID_PATTERN = ocid_shape ''ocid1.onstopic.'' s"
  unfolding is_valid_ocid_def DRPG_OCID_PATTERN_def TOPIC_OCID_PATTERN_def ocid_shape_def
    re_match_lits re_match_ocid_tail
  by (rule conjI) (rule refl)+

theorem is_valid_ocid_iff_shape_witness:
  "is_valid_ocid ''ocid1.drprotectiongroup.oc1.phx.bbb'' DRPG_OCID_PATTERN \<and>
   \<not> is_valid_ocid ''ocid1.drprotectiongroup.oc1..bbb'' DRPG_OCID_PATTERN \<and>
   \<not> is_valid_ocid ''ocid1.drprotectiongroup.oc1.phx.bbb.ccc'' DRPG_OCID_PATTERN \<and>
   is_valid_ocid ''ocid1.onstopic.oc1.phx.ttt'' TOPIC_OCID_PATTERN"
proof -
  have "ocid_shape ''ocid1.drprotectiongroup.'' ''ocid1.drprotectiongroup.oc1.phx.bbb'' \<and>
        \<not> ocid_shape ''ocid1.drprotectiongroup.'' ''ocid1.drprotectiongroup.oc1..bbb'' \<and>
        \<not> ocid_shape ''ocid1.drprotectiongroup.'' ''ocid1.drprotectiongroup.oc1.phx.bbb.ccc'' \<and>
        ocid_shape ''ocid1.onstopic.'' ''ocid1.onstopic.oc1.phx.ttt''"
    by (simp add: ocid_shape_def)
  then show ?thesis
    using is_valid_ocid_iff_shape [of "''ocid1.drprotectiongroup.oc1.phx.bbb''"]
      is_valid_ocid_iff_shape [of "''ocid1.drprotectiongroup.oc1..bbb''"]
      is_valid_ocid_iff_shape [of "''ocid1.drprotectiongroup.oc1.phx.bbb.ccc''"]
      is_valid_ocid_iff_shape [of "''ocid1.onstopic.oc1.phx.ttt''"]
    by blast
qed

lemma region_keys:
  "REGION_MAPPING r = Some c \<Longrightarrow> \<not> re_match REGION_PATTERN r \<and> re_match REGION_PATTERN c"
  by (auto simp: REGION_MAPPING_def REGION_PATTERN_def Lit_def lower_alnum_def digit_def
      split: if_splits)

text \<open>
  C9. \<open>normalize_region\<close> returns an input that matches the canonical region pattern
  unchanged, returns the table's canonical form for every key of the short-code table,
  returns the absent value for every other input, and is idempotent: a result it has
  produced is returned unchanged.
\<close>

theorem normalize_region_cases:
  "(re_match REGION_PATTERN r \<longrightarrow> normalize_region r = Some r) \<and>
   (\<forall>c. REGION_MAPPING r = Some c \<longrightarrow> normalize_region r = Some c) \<and>
   (\<not> re_match REGION_PATTERN r \<and> REGION_MAPPING r = None \<longrightarrow> normalize_region r = None) \<and>
   (\<forall>c. normalize_region r = Some c \<longrightarrow> normalize_region c = Some c)"
  using region_keys [of r] by (auto simp: normalize_region_def)

theorem normalize_region_cases_witness:
  "re_match REGION_PATTERN ''us-phoenix-1'' \<and>
   normalize_region ''us-phoenix-1'' = Some ''us-phoenix-1'' \<and>
   REGION_MAPPING ''iad'' = Some ''us-ashburn-1'' \<and>
   normalize_region ''iad'' = Some ''us-ashburn-1'' \<and>
   normalize_region ''us-ashburn-1'' = Some ''us-ashburn-1'' \<and>
   \<not> re_match REGION_PATTERN ''fra'' \<and> REGION_MAPPING ''fra'' = None \<and>
   normalize_region ''fra'' = None"
proof -
  have a: "re_match REGION_PATTERN ''us-phoenix-1''"
    by (simp add: REGION_PATTERN_def Lit_def lower_alnum_def digit_def)
  have b: "REGION_MAPPING ''iad'' = Some ''us-ashburn-1''"
    by (simp add: REGION_MAPPING_def)
  have c: "\<not> re_match REGION_PATTERN ''fra'' \<and> REGION_MAPPING ''fra'' = None"
    by (simp add: REGION_PATTERN_def REGION_MAPPING_def Lit_def lower_alnum_def)
  from normalize_region_cases [of "''us-phoenix-1''"] a
  have 1: "normalize_region ''us-phoenix-1'' = Some ''us-phoenix-1''" by blast
  from normalize_region_cases [of "''iad''"] b
  have 2: "normalize_region ''iad'' = Some ''us-ashburn-1''" by blast
  from normalize_region_cases [of "''iad''"] 2
  have 3: "normalize_region ''us-ashburn-1'' = Some ''us-ashburn-1''" by blast
  from normalize_region_cases [of "''fra''"] c
  have 4: "normalize_region ''fra'' = None" by blast
  show ?thesis using a b c 1 2 3 4 by blast
qed

lemma truthy_normalize_region: "truthy (normalize_region r) = (normalize_region r \<noteq> None)"
  by (auto simp: truthy_def normalize_region_def REGION_PATTERN_def REGION_MAPPING_def
      split: option.splits if_splits)

lemma normalize_phx: "normalize_region ''phx'' = Some ''us-phoenix-1''"
  by (simp add: normalize_region_def REGION_PATTERN_def REGION_MAPPING_def Lit_def
      lower_alnum_def)

lemma normalize_xyz: "normalize_region ''xyz'' = None"
  by (simp add: normalize_region_def REGION_PATTERN_def REGION_MAPPING_def Lit_def
      lower_alnum_def)

section \<open>The plan listing\<close>

lemmas prog_defs =
  chain_def ok_def raise_def sys_exit_def try_except_def call_def api_def api_unit_def
  logger_log_def setup_logger_def write_text_def prepare_region_file_def unlink_def
  from_file_def index_def read_text_def publish_def create_execution_def

lemma scan_transitional_find:
  "scan_transitional env items st =
     (case find (\<lambda>p. plan_lifecycle_state p \<in> transitional_states) items of
        None \<Rightarrow> (Inr None, st)
      | Some p \<Rightarrow>
          (Inr (Some (plan_lifecycle_state p)),
           snd (logger_log env ERROR
                  (''Found transitional plan: '' @ plan_display_name p @ '' in state '' @
                   plan_lifecycle_state p) None st)))"
  by (induction items) (simp_all add: ok_def chain_def logger_log_def)

text \<open>
  C7. The plan listing queries all plans first. If the query raises, the result is the
  absent value. If some plan is in a transitional state, the result is the state of the
  first such plan, and nothing happens after that query but the one log record: the one
  request sent is the first query (no second query). Otherwise the listing queries again with lifecycle state ACTIVE and returns
  that list, or the absent value if this query raises.
\<close>

theorem list_active_dr_plans_result:
  "(\<forall>e. list_dr_plans env (tick st) client ocid None = Inl e \<longrightarrow>
      fst (list_active_dr_plans env ocid client st) = Inr PlanNone) \<and>
   (\<forall>items p. list_dr_plans env (tick st) client ocid None = Inr items \<and>
      find (\<lambda>p. plan_lifecycle_state p \<in> transitional_states) items = Some p \<longrightarrow>
      list_active_dr_plans env ocid client st =
        (Inr (PlanState (plan_lifecycle_state p)),
         snd (logger_log env ERROR
                (''Found transitional plan: '' @ plan_display_name p @ '' in state '' @
                 plan_lifecycle_state p) None
                (st\<lparr>tick := tick st + 1,
                    requests := requests st @ [ListDrPlans client ocid None]\<rparr>)))) \<and>
   (\<forall>items. list_dr_plans env (tick st) client ocid None = Inr items \<and>
      find (\<lambda>p. plan_lifecycle_state p \<in> transitional_states) items = None \<longrightarrow>
      fst (list_active_dr_plans env ocid client st) =
        (case list_dr_plans env (tick st + 1) client ocid (Some ''ACTIVE'') of
           Inl e \<Rightarrow> Inr PlanNone
         | Inr active \<Rightarrow> Inr (PlanList active)))"
  by (auto simp: list_active_dr_plans_def scan_transitional_find prog_defs split: sum.splits)

theorem list_active_dr_plans_result_witness:
  "fst (list_active_dr_plans
          (test_env standby_group primary_group
             [test_plan ''p1'' ''SWITCHOVER'', updating_plan])
          ''ocid1.drprotectiongroup.oc1.phx.bbb'' (''config'', ''signer'') world0) =
     Inr (PlanState ''UPDATING'') \<and>
   fst (list_active_dr_plans
          (test_env standby_group primary_group [test_plan ''p1'' ''SWITCHOVER''])
          ''ocid1.drprotectiongroup.oc1.phx.bbb'' (''config'', ''signer'') world0) =
     Inr (PlanList [test_plan ''p1'' ''SWITCHOVER''])"
proof -
  have 1: "list_dr_plans
             (test_env standby_group primary_group
                [test_plan ''p1'' ''SWITCHOVER'', updating_plan])
             (tick world0) (''config'', ''signer'') ''ocid1.drprotectiongroup.oc1.phx.bbb''
             None = Inr [test_plan ''p1'' ''SWITCHOVER'', updating_plan] \<and>
           find (\<lambda>p. plan_lifecycle_state p \<in> transitional_states)
             [test_plan ''p1'' ''SWITCHOVER'', updating_plan] = Some updating_plan"
    by (simp add: test_env_def test_plan_def updating_plan_def transitional_states_def)
  have 2: "list_dr_plans
             (test_env standby_group primary_group [test_plan ''p1'' ''SWITCHOVER''])
             (tick world0) (''config'', ''signer'') ''ocid1.drprotectiongroup.oc1.phx.bbb''
             None = Inr [test_plan ''p1'' ''SWITCHOVER''] \<and>
           find (\<lambda>p. plan_lifecycle_state p \<in> transitional_states)
             [test_plan ''p1'' ''SWITCHOVER''] = None"
    by (simp add: test_env_def test_plan_def transitional_states_def)
  have 3: "list_dr_plans
             (test_env standby_group primary_group [test_plan ''p1'' ''SWITCHOVER''])
             (tick world0 + 1) (''config'', ''signer'') ''ocid1.drprotectiongroup.oc1.phx.bbb''
             (Some ''ACTIVE'') = Inr [test_plan ''p1'' ''SWITCHOVER'']"
    by (simp add: test_env_def)
  have "plan_lifecycle_state updating_plan = ''UPDATING''"
    by (simp add: updating_plan_def)
  then show ?thesis
    using 1 2 3
      list_active_dr_plans_result
        [of "test_env standby_group primary_group
               [test_plan ''p1'' ''SWITCHOVER'', updating_plan]"
            world0 "(''config'', ''signer'')" "''ocid1.drprotectiongroup.oc1.phx.bbb''"]
      list_active_dr_plans_result
        [of "test_env standby_group primary_group [test_plan ''p1'' ''SWITCHOVER'']"
            world0 "(''config'', ''signer'')" "''ocid1.drprotectiongroup.oc1.phx.bbb''"]
    by simp
qed

section \<open>The notifier\<close>

lemma exn_str_surj: "\<exists>e. s = exn_str e"
  by (rule exI [of _ "Exception [] s"]) simp

text \<open>
  C4, as the specification states it, fails: the title the notifier publishes starts with
  \<open>FSDR\<close>, so it is not \<open>Precheck Failed for <name> - <id>\<close>.
\<close>

theorem send_notification_title_counterexample:
  "length (published (snd (send_notification (test_env standby_group primary_group [])
       ''signer'' ''standby'' ''ocid1.drprotectiongroup.oc1.phx.bbb''
       ''ocid1.onstopic.oc1.phx.ttt'' ''/opt/logs/error.log'' ''/opt'' world1))) = 1 \<and>
   map title (published (snd (send_notification (test_env standby_group primary_group [])
       ''signer'' ''standby'' ''ocid1.drprotectiongroup.oc1.phx.bbb''
       ''ocid1.onstopic.oc1.phx.ttt'' ''/opt/logs/error.log'' ''/opt'' world1))) \<noteq>
     [''Precheck Failed for '' @ ''standby'' @ '' - '' @ ''ocid1.drprotectiongroup.oc1.phx.bbb'']"
  by (simp add: send_notification_def prog_defs truthy_normalize_region normalize_phx
      py_str_def region_path_def test_env_def world1_def world0_def)

text \<open>
  C4, amended. The notifier publishes at most one message. When it publishes, the body is
  \<open><name>: <id>\<close>, two newlines and the full contents of the error log, and the title
  is \<open>FSDR Precheck Failed for <name> - <id>\<close>.
\<close>

theorem send_notification_message:
  "published (snd (send_notification env sg name ocid topic elog base st)) = published st \<or>
   error_log st \<noteq> None \<and>
   published (snd (send_notification env sg name ocid topic elog base st)) =
     published st @
       [\<lparr>topic_id = topic,
         body = name @ '': '' @ ocid @ [CHR 0x0A, CHR 0x0A] @ the (error_log st),
         title = ''FSDR Precheck Failed for '' @ name @ '' - '' @ ocid\<rparr>]"
  by (simp add: send_notification_def prog_defs split: option.splits sum.splits if_splits)

theorem send_notification_message_witness:
  "published (snd (send_notification (test_env standby_group primary_group [])
       ''signer'' ''standby'' ''ocid1.drprotectiongroup.oc1.phx.bbb''
       ''ocid1.onstopic.oc1.phx.ttt'' ''/opt/logs/error.log'' ''/opt'' world1)) =
     [\<lparr>topic_id = ''ocid1.onstopic.oc1.phx.ttt'',
       body = ''standby: ocid1.drprotectiongroup.oc1.phx.bbb'' @ [CHR 0x0A, CHR 0x0A] @
              ''ERROR - DRPG is unconfigured.'',
       title = ''FSDR Precheck Failed for standby - ocid1.drprotectiongroup.oc1.phx.bbb''\<rparr>]"
proof -
  have "published (snd (send_notification (test_env standby_group primary_group [])
       ''signer'' ''standby'' ''ocid1.drprotectiongroup.oc1.phx.bbb''
       ''ocid1.onstopic.oc1.phx.ttt'' ''/opt/logs/error.log'' ''/opt'' world1)) \<noteq>
       published world1"
    by (simp add: send_notification_def prog_defs truthy_normalize_region normalize_phx
        py_str_def region_path_def test_env_def world1_def world0_def)
  then show ?thesis
    using send_notification_message [of "test_env standby_group primary_group []"
        "''signer''" "''standby''" "''ocid1.drprotectiongroup.oc1.phx.bbb''"
        "''ocid1.onstopic.oc1.phx.ttt''" "''/opt/logs/error.log''" "''/opt''" world1]
    by (simp add: world1_def world0_def)
qed

text \<open>
  C3, as the specification states it, fails: a topic identifier of the valid shape whose
  region segment the resolver does not know makes the notifier end the process with
  status 1.
\<close>

theorem send_notification_exit_counterexample:
  "is_valid_ocid ''ocid1.onstopic.oc1.xyz.ttt'' TOPIC_OCID_PATTERN \<and>
   fst (send_notification (test_env standby_group primary_group [])
       ''signer'' ''standby'' ''ocid1.drprotectiongroup.oc1.phx.bbb''
       ''ocid1.onstopic.oc1.xyz.ttt'' ''/opt/logs/error.log'' ''/opt'' world1) =
     Inl (SystemExit 1)"
  by (simp add: send_notification_def prog_defs truthy_normalize_region normalize_xyz
      world1_def world0_def is_valid_ocid_def TOPIC_OCID_PATTERN_def ocid_tail_def lits_def
      Lit_def not_dot_def)

text \<open>
  C3, amended. The notifier never lets an exception out. It ends the process, with status
  1, in exactly one case: the error log was read, the topic identifier has a fourth
  dot-delimited field, and the resolver does not know that field; it has then logged the
  one ERROR record \<open>Unable to determine valid region for the topic.\<close>, published nothing
  and written no file. In every other case it returns normally, and then it has either
  published one message and logged nothing, or published nothing and logged one ERROR
  record \<open>Failed to send notification: ...\<close>.
\<close>

theorem send_notification_outcome:
  "fst (send_notification env sg name ocid topic elog base st) =
     (if error_log st \<noteq> None \<and> 3 < length (split_on CHR ''.'' topic) \<and>
         normalize_region (split_on CHR ''.'' topic ! 3) = None
      then Inl (SystemExit 1) else Inr ()) \<and>
   (fst (send_notification env sg name ocid topic elog base st) = Inl (SystemExit 1) \<longrightarrow>
      logged (snd (send_notification env sg name ocid topic elog base st)) =
        logged st @ [(ERROR, ''Unable to determine valid region for the topic.'')] \<and>
      published (snd (send_notification env sg name ocid topic elog base st)) = published st \<and>
      files (snd (send_notification env sg name ocid topic elog base st)) = files st) \<and>
   (fst (send_notification env sg name ocid topic elog base st) = Inr () \<longrightarrow>
      length (published (snd (send_notification env sg name ocid topic elog base st))) =
        Suc (length (published st)) \<and>
      logged (snd (send_notification env sg name ocid topic elog base st)) = logged st \<or>
      published (snd (send_notification env sg name ocid topic elog base st)) = published st \<and>
      (\<exists>e. logged (snd (send_notification env sg name ocid topic elog base st)) =
             logged st @ [(ERROR, ''Failed to send notification: '' @ exn_str e)]))"
  by (auto simp: send_notification_def prog_defs truthy_normalize_region exn_str_surj
      split: option.splits sum.splits if_splits)

theorem send_notification_outcome_witness:
  "fst (send_notification down_env ''signer'' ''standby''
       ''ocid1.drprotectiongroup.oc1.phx.bbb'' ''ocid1.onstopic.oc1.phx.ttt''
       ''/opt/logs/error.log'' ''/opt'' world1) = Inr () \<and>
   published (snd (send_notification down_env ''signer'' ''standby''
       ''ocid1.drprotectiongroup.oc1.phx.bbb'' ''ocid1.onstopic.oc1.phx.ttt''
       ''/opt/logs/error.log'' ''/opt'' world1)) = [] \<and>
   (\<exists>e. logged (snd (send_notification down_env ''signer'' ''standby''
       ''ocid1.drprotectiongroup.oc1.phx.bbb'' ''ocid1.onstopic.oc1.phx.ttt''
       ''/opt/logs/error.log'' ''/opt'' world1)) =
         [(ERROR, ''Failed to send notification: '' @ exn_str e)]) \<and>
   fst (send_notification down_env ''signer'' ''standby''
       ''ocid1.drprotectiongroup.oc1.phx.bbb'' ''ocid1.onstopic.oc1.xyz.ttt''
       ''/opt/logs/error.log'' ''/opt'' world1) = Inl (SystemExit 1) \<and>
   logged (snd (send_notification down_env ''signer'' ''standby''
       ''ocid1.drprotectiongroup.oc1.phx.bbb'' ''ocid1.onstopic.oc1.xyz.ttt''
       ''/opt/logs/error.log'' ''/opt'' world1)) =
     [(ERROR, ''Unable to determine valid region for the topic.'')]"
proof -
  have 1: "split_on CHR ''.'' ''ocid1.onstopic.oc1.phx.ttt'' =
             [''ocid1'', ''onstopic'', ''oc1'', ''phx'', ''ttt'']"
    "split_on CHR ''.'' ''ocid1.onstopic.oc1.xyz.ttt'' =
             [''ocid1'', ''onstopic'', ''oc1'', ''xyz'', ''ttt'']"
    by simp_all
  have 2: "length (published (snd (send_notification down_env ''signer'' ''standby''
       ''ocid1.drprotectiongroup.oc1.phx.bbb'' ''ocid1.onstopic.oc1.phx.ttt''
       ''/opt/logs/error.log'' ''/opt'' world1))) \<noteq> Suc (length (published world1))"
    by (simp add: send_notification_def prog_defs truthy_normalize_region normalize_phx
        py_str_def region_path_def test_env_def down_env_def world1_def world0_def)
  show ?thesis
    using 2 send_notification_outcome [of down_env "''signer''" "''standby''"
        "''ocid1.drprotectiongroup.oc1.phx.bbb''" "''ocid1.onstopic.oc1.phx.ttt''"
        "''/opt/logs/error.log''" "''/opt''" world1]
      send_notification_outcome [of down_env "''signer''" "''standby''"
        "''ocid1.drprotectiongroup.oc1.phx.bbb''" "''ocid1.onstopic.oc1.xyz.ttt''"
        "''/opt/logs/error.log''" "''/opt''" world1]
    by (simp add: 1 normalize_phx normalize_xyz world1_def world0_def)
qed

section \<open>The orchestrator: the parts of a run\<close>

lemma unlink_notify_exit_not_Inr [simp]:
  "(unlink_notify_exit env rf topic sg name oc elog base st = (Inr x, st')) = False"
  by (cases "send_notification env sg name oc (the topic) elog base
               (st\<lparr>files := (files st)(rf := None)\<rparr>)")
     (auto simp: unlink_notify_exit_def chain_def unlink_def ok_def sys_exit_def
      split: option.splits sum.splits prod.splits)

lemma connect_success:
  assumes "run_prechecks_connect env ocid topic base st0 = (Inr (rf, sg, cfg, elog), s)"
  shows "files s rf \<noteq> None \<and> published s = published st0 \<and>
         executions s = executions st0 \<and> requests s = requests st0 \<and>
         logged s = logged st0 \<and>
         (\<forall>p. files s p \<noteq> None \<longrightarrow> files st0 p \<noteq> None \<or> p = rf) \<and>
         is_valid_ocid ocid DRPG_OCID_PATTERN \<and>
         (truthy topic \<longrightarrow> is_valid_ocid (the topic) TOPIC_OCID_PATTERN)"
  using assms
  by (auto simp: run_prechecks_connect_def prog_defs
      split: if_splits option.splits sum.splits)

lemma role_success:
  assumes "run_prechecks_role env ocid topic base (rf, sg, cfg, elog) s = (Inr l, s1)"
    and "files s rf \<noteq> None"
  shows "files s1 (region_file l) \<noteq> None \<and> published s1 = published s \<and>
         executions s1 = executions s \<and>
         (\<forall>p. files s1 p \<noteq> None \<longrightarrow> files s p \<noteq> None \<and> p \<noteq> rf \<or> p = region_file l)"
  using assms
  by (auto simp: run_prechecks_role_def get_drpg_details_def prog_defs
      split: if_splits option.splits sum.splits)

lemma resolve_split:
  assumes "run_prechecks_resolve env ocid topic base st0 = (Inr l, s1)"
  obtains rf sg cfg elog s where
    "run_prechecks_connect env ocid topic base st0 = (Inr (rf, sg, cfg, elog), s)"
    "run_prechecks_role env ocid topic base (rf, sg, cfg, elog) s = (Inr l, s1)"
proof (cases "run_prechecks_connect env ocid topic base st0")
  case (Pair r s)
  show thesis
  proof (cases r)
    case (Inl a)
    with assms Pair show thesis by (simp add: run_prechecks_resolve_def chain_def)
  next
    case (Inr x)
    obtain rf sg cfg elog where x: "x = (rf, sg, cfg, elog)" by (cases x) auto
    with assms Pair Inr that [of rf sg cfg elog s] show thesis
      by (simp add: run_prechecks_resolve_def chain_def)
  qed
qed

lemma resolve_success:
  assumes "run_prechecks_resolve env ocid topic base st0 = (Inr l, st1)"
  shows "files st1 (region_file l) \<noteq> None \<and> published st1 = published st0 \<and>
         executions st1 = executions st0 \<and>
         (\<forall>p. files st1 p \<noteq> None \<longrightarrow> files st0 p \<noteq> None \<or> p = region_file l)"
proof -
  from assms obtain rf sg cfg elog s where
    c: "run_prechecks_connect env ocid topic base st0 = (Inr (rf, sg, cfg, elog), s)" and
    r: "run_prechecks_role env ocid topic base (rf, sg, cfg, elog) s = (Inr l, st1)"
    by (rule resolve_split)
  from connect_success [OF c] have f: "files s rf \<noteq> None" by simp
  from connect_success [OF c] role_success [OF r f] show ?thesis by auto
qed

lemma resolve_success_valid:
  assumes "run_prechecks_resolve env ocid topic base st0 = (Inr l, st1)"
  shows "is_valid_ocid ocid DRPG_OCID_PATTERN \<and>
         (truthy topic \<longrightarrow> is_valid_ocid (the topic) TOPIC_OCID_PATTERN)"
proof -
  from assms obtain rf sg cfg elog s where
    c: "run_prechecks_connect env ocid topic base st0 = (Inr (rf, sg, cfg, elog), s)"
    by (rule resolve_split)
  from connect_success [OF c] show ?thesis by simp
qed

lemma chain_assoc: "chain (chain m f) g = chain m (\<lambda>x. chain (f x) g)"
  by (rule ext) (simp add: chain_def split: prod.splits sum.splits)

lemma chain_ok: "chain (ok x) f = f x"
  by (rule ext) (simp add: chain_def ok_def)

lemma precheck_plans_append:
  "precheck_plans env c sid (xs @ ys) =
     chain (precheck_plans env c sid xs) (\<lambda>_. precheck_plans env c sid ys)"
  by (induction xs) (simp_all add: chain_ok chain_assoc)

lemma precheck_plan_unknown:
  "plan_type p \<notin> {''SWITCHOVER'', ''FAILOVER'', ''START_DRILL'', ''STOP_DRILL''} \<Longrightarrow>
   precheck_plan env c sid p st =
     (Inl (Raised (Exception ''ValueError''
        ([CHR 0x27] @ plan_type p @ [CHR 0x27] @ '' is not a valid DrPlanType''))), st)"
  by (simp add: precheck_plan_def DrPlanType_of_def chain_def raise_def)

lemma DrPlanType_of_cases:
  "DrPlanType_of v st = (r, st') \<Longrightarrow> st' = st \<and> (\<forall>n. r \<noteq> Inl (SystemExit n))"
  by (auto simp: DrPlanType_of_def ok_def raise_def split: if_splits)

lemma options_total:
  "(if pt = SWITCHOVER then ok A
    else if pt = FAILOVER then ok B
    else if pt = START_DRILL then ok C
    else if pt = STOP_DRILL then ok D else X) =
   ok (case pt of SWITCHOVER \<Rightarrow> A | FAILOVER \<Rightarrow> B | START_DRILL \<Rightarrow> C | STOP_DRILL \<Rightarrow> D)"
  by (cases pt) simp_all

lemma precheck_plan_frame:
  assumes "precheck_plan env c sid p st = (r, st')"
  shows "files st' = files st \<and> published st' = published st \<and>
         (executions st' = executions st \<or>
          (\<exists>opt. executions st' = executions st @ [(plan_id p, opt)])) \<and>
         (\<forall>n. r \<noteq> Inl (SystemExit n)) \<and>
         (\<exists>xs. requests st' = requests st @ xs \<and> list_all (addressed c sid) xs)"
proof (cases "DrPlanType_of (plan_type p) st")
  case (Pair r0 s0)
  note d = DrPlanType_of_cases [OF Pair]
  show ?thesis
  proof (cases r0)
    case (Inl a)
    with assms Pair d show ?thesis
      by (auto simp: precheck_plan_def chain_def)
  next
    case (Inr pt)
    with assms Pair d show ?thesis
      unfolding precheck_plan_def options_total chain_ok
      by (auto simp: get_drpg_details_def prog_defs split: sum.splits option.splits if_splits)
  qed
qed

lemma precheck_plans_frame:
  "precheck_plans env c sid ps st = (r, st') \<Longrightarrow>
   files st' = files st \<and> published st' = published st \<and>
   (\<exists>xs. executions st' = executions st @ xs \<and> set (map fst xs) \<subseteq> set (map plan_id ps)) \<and>
   (\<forall>n. r \<noteq> Inl (SystemExit n)) \<and>
   (\<exists>xs. requests st' = requests st @ xs \<and> list_all (addressed c sid) xs)"
proof (induction ps arbitrary: st)
  case Nil
  then show ?case by (auto simp: ok_def)
next
  case (Cons p ps)
  obtain r1 s1 where p1: "precheck_plan env c sid p st = (r1, s1)"
    by (cases "precheck_plan env c sid p st")
  from precheck_plan_frame [OF p1]
  have f1: "files s1 = files st" "published s1 = published st"
    "\<forall>n. r1 \<noteq> Inl (SystemExit n)"
    and e1: "\<exists>ys. executions s1 = executions st @ ys \<and> set (map fst ys) \<subseteq> {plan_id p}"
    and q1: "\<exists>xs. requests s1 = requests st @ xs \<and> list_all (addressed c sid) xs"
    by auto
  from e1 obtain ys where ys: "executions s1 = executions st @ ys"
    "set (map fst ys) \<subseteq> {plan_id p}" by blast
  from q1 obtain qs where qs: "requests s1 = requests st @ qs" "list_all (addressed c sid) qs"
    by blast
  show ?case
  proof (cases r1)
    case (Inl a)
    with Cons.prems p1 have "st' = s1" "r = Inl a" by (auto simp: chain_def)
    with f1 ys qs Inl show ?thesis by auto
  next
    case (Inr u)
    with Cons.prems p1 have "precheck_plans env c sid ps s1 = (r, st')"
      by (simp add: chain_def)
    from Cons.IH [OF this] obtain xs rs where
      xs: "files st' = files s1" "published st' = published s1"
      "executions st' = executions s1 @ xs" "set (map fst xs) \<subseteq> set (map plan_id ps)"
      "\<forall>n. r \<noteq> Inl (SystemExit n)"
      and rs: "requests st' = requests s1 @ rs" "list_all (addressed c sid) rs"
      by blast
    have "executions st' = executions st @ (ys @ xs)"
      using xs ys by simp
    moreover have "set (map fst (ys @ xs)) \<subseteq> set (map plan_id (p # ps))"
      using xs ys by auto
    moreover have "requests st' = requests st @ (qs @ rs)" "list_all (addressed c sid) (qs @ rs)"
      using qs rs by simp_all
    ultimately show ?thesis using xs f1 by metis
  qed
qed

lemma list_active_dr_plans_frame:
  "list_active_dr_plans env oc c st = (r, st') \<Longrightarrow>
   files st' = files st \<and> published st' = published st \<and> executions st' = executions st \<and>
   (\<exists>res. r = Inr res) \<and>
   (\<exists>xs. requests st' = requests st @ ListDrPlans c oc None # xs \<and>
         list_all (addressed c oc) xs)"
  by (auto simp: list_active_dr_plans_def scan_transitional_find prog_defs
      split: sum.splits option.splits)


lemma plans_unknown_type:
  assumes reach: "precheck_plans env (dr_client l) (drpg_id (standby l)) pre st = (Inr (), st')"
    and unknown: "plan_type p \<notin> {''SWITCHOVER'', ''FAILOVER'', ''START_DRILL'', ''STOP_DRILL''}"
  shows "run_prechecks_plans env topic base l (PlanList (pre @ p # rest)) st =
     (Inl (Raised (Exception ''ValueError''
        ([CHR 0x27] @ plan_type p @ [CHR 0x27] @ '' is not a valid DrPlanType''))), st')"
  using reach precheck_plan_unknown [OF unknown]
  by (simp add: run_prechecks_plans_def precheck_plans_append chain_def py_len_def ok_def)

lemma plans_none:
  "run_prechecks_plans env topic base l PlanNone st =
     (Inl (Raised (Exception ''TypeError''
        (''object of type '' @ [CHR 0x27] @ ''NoneType'' @ [CHR 0x27] @ '' has no len()''))),
      st)"
  by (simp add: run_prechecks_plans_def chain_def py_len_def raise_def)

lemma standby_active:
  "drpg_lifecycle_state (standby l) = ''ACTIVE'' \<Longrightarrow>
   run_prechecks_standby env topic base l st =
     chain (list_active_dr_plans env (drpg_id (standby l)) (dr_client l))
       (run_prechecks_plans env topic base l)
       (st\<lparr>tick := tick st + 1,
           logged := logged st @
             [(INFO, ''Standby DRPG: '' @ drpg_display_name (standby l) @ '' ('' @
                     drpg_id (standby l) @ '') is '' @ ''ACTIVE'')]\<rparr>)"
  by (simp add: run_prechecks_standby_def chain_def logger_log_def)

lemma split_on_prefix_fields:
  assumes "take (length p) s = p"
    and "re_match ocid_tail (drop (length p) s)"
  shows "\<exists>a b c. split_on CHR ''.'' (drop (length p) s) = [a, b, c] \<and> s = p @ drop (length p) s"
proof -
  from assms(2) obtain a b c where "split_on CHR ''.'' (drop (length p) s) = [a, b, c]"
    by (auto simp: re_match_ocid_tail split: list.splits)
  moreover have "s = p @ drop (length p) s"
    using assms(1) append_take_drop_id [of "length p" s] by simp
  ultimately show ?thesis by blast
qed


lemma valid_topic_fields:
  assumes "is_valid_ocid s TOPIC_OCID_PATTERN"
  shows "length (split_on CHR ''.'' s) = 5"
proof -
  from assms obtain a b c where
    1: "split_on CHR ''.'' (drop (length ''ocid1.onstopic.'') s) = [a, b, c]" and
    2: "s = ''ocid1.onstopic.'' @ drop (length ''ocid1.onstopic.'') s"
    using split_on_prefix_fields [of "''ocid1.onstopic.''" s]
    unfolding is_valid_ocid_def TOPIC_OCID_PATTERN_def re_match_lits by blast
  have "length (split_on CHR ''.'' (''ocid1.onstopic.'' @
          drop (length ''ocid1.onstopic.'') s)) = 5"
    using 1 by simp
  with 2 show ?thesis by simp
qed



lemma valid_bbb: "is_valid_ocid ''ocid1.drprotectiongroup.oc1.phx.bbb'' DRPG_OCID_PATTERN"
  by (simp add: is_valid_ocid_def DRPG_OCID_PATTERN_def ocid_tail_def lits_def Lit_def
      not_dot_def)


lemma valid_ttt: "is_valid_ocid ''ocid1.onstopic.oc1.phx.ttt'' TOPIC_OCID_PATTERN"
  by (simp add: is_valid_ocid_def TOPIC_OCID_PATTERN_def ocid_tail_def lits_def Lit_def
      not_dot_def)

text \<open>The first part of a run against the standby group of the concrete service.\<close>

lemma resolve_standby_group:
  "fst (run_prechecks_resolve (test_env standby_group primary_group ps)
          ''ocid1.drprotectiongroup.oc1.phx.bbb'' (Some ''ocid1.onstopic.oc1.phx.ttt'')
          ''/opt'' world0) = Inr standby_locals"
  by (simp add: run_prechecks_resolve_def run_prechecks_connect_def run_prechecks_role_def
      valid_bbb valid_ttt normalize_phx prog_defs truthy_def py_str_def get_drpg_details_def
      test_env_def world0_def standby_group_def standby_locals_def region_path_def)

lemma chain_Inr_eq: "m st = (Inr x, st') \<Longrightarrow> chain m f st = f x st'"
  by (simp add: chain_def)

lemma chain_Inl_eq: "m st = (Inl a, st') \<Longrightarrow> chain m f st = (Inl a, st')"
  by (simp add: chain_def)

lemma standby_active_state:
  assumes "drpg_lifecycle_state (standby l) = ''ACTIVE''"
  obtains s where "tick s = tick st + 1" "files s = files st" "published s = published st"
    "executions s = executions st" "requests s = requests st"
    "logged s = logged st @
       [(INFO, ''Standby DRPG: '' @ drpg_display_name (standby l) @ '' ('' @
               drpg_id (standby l) @ '') is '' @ drpg_lifecycle_state (standby l))]"
    "run_prechecks_standby env topic base l st =
       chain (list_active_dr_plans env (drpg_id (standby l)) (dr_client l))
         (run_prechecks_plans env topic base l) s"
  using standby_active [OF assms, of env topic base st] assms
  by (elim meta_allE meta_impE) simp_all

lemma list_active_None:
  assumes "(\<exists>e. list_dr_plans env (tick st) c sid None = Inl e) \<or>
     (\<exists>items e. list_dr_plans env (tick st) c sid None = Inr items \<and>
        find (\<lambda>p. plan_lifecycle_state p \<in> transitional_states) items = None \<and>
        list_dr_plans env (tick st + 1) c sid (Some ''ACTIVE'') = Inl e)"
  shows "fst (list_active_dr_plans env sid c st) = Inr PlanNone"
  using assms
  by (auto simp: list_active_dr_plans_def scan_transitional_find prog_defs split: sum.splits)

lemma run_enumeration_fails:
  assumes resolve: "run_prechecks_resolve env ocid topic base st0 = (Inr l, st1)"
    and active: "drpg_lifecycle_state (standby l) = ''ACTIVE''"
    and fails: "(\<exists>e. list_dr_plans env (tick st1 + 1) (dr_client l) (drpg_id (standby l)) None =
          Inl e) \<or>
       (\<exists>items e. list_dr_plans env (tick st1 + 1) (dr_client l) (drpg_id (standby l)) None =
          Inr items \<and>
          find (\<lambda>p. plan_lifecycle_state p \<in> transitional_states) items = None \<and>
          list_dr_plans env (tick st1 + 2) (dr_client l) (drpg_id (standby l))
            (Some ''ACTIVE'') = Inl e)"
  shows "fst (run_prechecks env ocid topic base st0) =
           Inl (Raised (Exception ''TypeError''
             (''object of type '' @ [CHR 0x27] @ ''NoneType'' @ [CHR 0x27] @
              '' has no len()''))) \<and>
         files (snd (run_prechecks env ocid topic base st0)) (region_file l) \<noteq> None \<and>
         published (snd (run_prechecks env ocid topic base st0)) = published st0"
proof -
  from active obtain s where s: "tick s = tick st1 + 1" "files s = files st1"
    "published s = published st1"
    and run: "run_prechecks_standby env topic base l st1 =
       chain (list_active_dr_plans env (drpg_id (standby l)) (dr_client l))
         (run_prechecks_plans env topic base l) s"
    by (rule standby_active_state)
  obtain r s2 where ls: "list_active_dr_plans env (drpg_id (standby l)) (dr_client l) s = (r, s2)"
    by (cases "list_active_dr_plans env (drpg_id (standby l)) (dr_client l) s")
  have "fst (list_active_dr_plans env (drpg_id (standby l)) (dr_client l) s) = Inr PlanNone"
    using fails by (intro list_active_None) (simp add: s add.assoc)
  with ls have r: "r = Inr PlanNone" by simp
  from list_active_dr_plans_frame [OF ls] s
  have fr: "files s2 = files st1" "published s2 = published st1" by simp_all
  have "run_prechecks env ocid topic base st0 = run_prechecks_standby env topic base l st1"
    by (simp add: run_prechecks_def chain_def resolve)
  also have "\<dots> = run_prechecks_plans env topic base l PlanNone s2"
    by (simp add: run chain_def ls r)
  finally have "run_prechecks env ocid topic base st0 =
     (Inl (Raised (Exception ''TypeError''
        (''object of type '' @ [CHR 0x27] @ ''NoneType'' @ [CHR 0x27] @ '' has no len()''))),
      s2)"
    by (simp only: plans_none)
  with fr resolve_success [OF resolve] show ?thesis by simp
qed

lemma run_unknown_type:
  assumes resolve: "fst (run_prechecks_resolve env ocid topic base st0) = Inr l"
    and active: "drpg_lifecycle_state (standby l) = ''ACTIVE''"
    and listing: "\<And>st. fst (list_active_dr_plans env (drpg_id (standby l)) (dr_client l) st) =
        Inr (PlanList (pre @ p # rest))"
    and reach: "\<And>st. fst (precheck_plans env (dr_client l) (drpg_id (standby l)) pre st) =
        Inr ()"
    and unknown: "plan_type p \<notin> {''SWITCHOVER'', ''FAILOVER'', ''START_DRILL'', ''STOP_DRILL''}"
  shows "fst (run_prechecks env ocid topic base st0) =
           Inl (Raised (Exception ''ValueError''
             ([CHR 0x27] @ plan_type p @ [CHR 0x27] @ '' is not a valid DrPlanType''))) \<and>
         files (snd (run_prechecks env ocid topic base st0)) (region_file l) \<noteq> None \<and>
         published (snd (run_prechecks env ocid topic base st0)) = published st0"
proof -
  obtain st1 where rs: "run_prechecks_resolve env ocid topic base st0 = (Inr l, st1)"
    using resolve by (cases "run_prechecks_resolve env ocid topic base st0") simp
  from active obtain s where s: "files s = files st1" "published s = published st1"
    and run: "run_prechecks_standby env topic base l st1 =
       chain (list_active_dr_plans env (drpg_id (standby l)) (dr_client l))
         (run_prechecks_plans env topic base l) s"
    by (rule standby_active_state)
  obtain s2 where ls: "list_active_dr_plans env (drpg_id (standby l)) (dr_client l) s =
      (Inr (PlanList (pre @ p # rest)), s2)"
    using listing [of s]
    by (cases "list_active_dr_plans env (drpg_id (standby l)) (dr_client l) s") simp
  obtain s3 where ps: "precheck_plans env (dr_client l) (drpg_id (standby l)) pre s2 =
      (Inr (), s3)"
    using reach [of s2]
    by (cases "precheck_plans env (dr_client l) (drpg_id (standby l)) pre s2") simp
  from list_active_dr_plans_frame [OF ls] s
  have f2: "files s2 = files st1" "published s2 = published st1" by simp_all
  from precheck_plans_frame [OF ps]
  have f3: "files s3 = files s2" "published s3 = published s2" by simp_all
  have "run_prechecks env ocid topic base st0 = run_prechecks_standby env topic base l st1"
    by (simp add: run_prechecks_def chain_def rs)
  also have "\<dots> = run_prechecks_plans env topic base l (PlanList (pre @ p # rest)) s2"
    by (simp add: run chain_def ls)
  finally have "run_prechecks env ocid topic base st0 =
     (Inl (Raised (Exception ''ValueError''
        ([CHR 0x27] @ plan_type p @ [CHR 0x27] @ '' is not a valid DrPlanType''))), s3)"
    by (simp only: plans_unknown_type [OF ps unknown])
  with f2 f3 resolve_success [OF rs] show ?thesis by simp
qed

lemma test_env_listing:
  "find (\<lambda>p. plan_lifecycle_state p \<in> transitional_states) ps = None \<Longrightarrow>
   fst (list_active_dr_plans (test_env g g' ps) sid c st) = Inr (PlanList ps)"
  by (simp add: list_active_dr_plans_def scan_transitional_find prog_defs test_env_def)

lemma test_env_switchover:
  "fst (precheck_plans (test_env g g' ps) c sid [test_plan ''p1'' ''SWITCHOVER''] st) = Inr ()"
  by (simp add: precheck_plan_def DrPlanType_of_def get_drpg_details_def prog_defs
      test_env_def test_plan_def)

lemma unknown_maintenance:
  "plan_type (test_plan ''p2'' ''MAINTENANCE'') \<notin>
     {''SWITCHOVER'', ''FAILOVER'', ''START_DRILL'', ''STOP_DRILL''}"
  by (simp add: test_plan_def)

text \<open>
  C6. When the loop over the listed plans reaches a plan whose type string is none of
  SWITCHOVER, FAILOVER, START_DRILL and STOP_DRILL, the run ends there with an uncaught
  \<open>ValueError\<close> (status 1): the world is the one the plans before it left, so no
  execution exists for that plan or for any plan after it.
\<close>

theorem unknown_plan_type_terminates:
  assumes unknown:
      "plan_type p \<notin> {''SWITCHOVER'', ''FAILOVER'', ''START_DRILL'', ''STOP_DRILL''}"
    and reach:
      "precheck_plans env (dr_client l) (drpg_id (standby l)) pre st = (Inr (), st')"
  shows "run_prechecks_plans env topic base l (PlanList (pre @ p # rest)) st =
           (Inl (Raised (Exception ''ValueError''
              ([CHR 0x27] @ plan_type p @ [CHR 0x27] @ '' is not a valid DrPlanType''))), st') \<and>
         exit_status (fst (run_prechecks_plans env topic base l (PlanList (pre @ p # rest)) st)) =
           1 \<and>
         (\<exists>xs. executions st' = executions st @ xs \<and>
               set (map fst xs) \<subseteq> set (map plan_id pre))"
  using plans_unknown_type [OF reach unknown, of topic base rest]
    precheck_plans_frame [OF reach]
  by simp

theorem unknown_plan_type_terminates_witness:
  "fst (run_prechecks_plans (test_env standby_group primary_group unknown_type_plans) None
          ''/opt'' standby_locals (PlanList unknown_type_plans) world0) =
     Inl (Raised (Exception ''ValueError''
        ([CHR 0x27] @ ''MAINTENANCE'' @ [CHR 0x27] @ '' is not a valid DrPlanType'')))"
proof -
  let ?E = "test_env standby_group primary_group unknown_type_plans"
  have "precheck_plans ?E (dr_client standby_locals) (drpg_id (standby standby_locals))
          [test_plan ''p1'' ''SWITCHOVER''] world0 =
        (Inr (), snd (precheck_plans ?E (dr_client standby_locals)
                        (drpg_id (standby standby_locals))
                        [test_plan ''p1'' ''SWITCHOVER''] world0))"
    using test_env_switchover
      [of standby_group primary_group unknown_type_plans "dr_client standby_locals"
          "drpg_id (standby standby_locals)" world0]
    by (simp add: prod_eq_iff)
  from unknown_plan_type_terminates [OF unknown_maintenance this,
      of None "''/opt''" "[test_plan ''p3'' ''FAILOVER'']"]
  show ?thesis
    by (simp add: unknown_type_plans_def test_plan_def)
qed

text \<open>
  C1 does not hold of the code: a run that lists a plan of unknown type ends with an
  uncaught \<open>ValueError\<close> while the region file written for the protection group is still on
  disk.
\<close>

theorem region_file_left_behind:
  "fst (run_prechecks (test_env standby_group primary_group unknown_type_plans)
          ''ocid1.drprotectiongroup.oc1.phx.bbb'' (Some ''ocid1.onstopic.oc1.phx.ttt'')
          ''/opt'' world0) =
     Inl (Raised (Exception ''ValueError''
        ([CHR 0x27] @ ''MAINTENANCE'' @ [CHR 0x27] @ '' is not a valid DrPlanType''))) \<and>
   files (snd (run_prechecks (test_env standby_group primary_group unknown_type_plans)
          ''ocid1.drprotectiongroup.oc1.phx.bbb'' (Some ''ocid1.onstopic.oc1.phx.ttt'')
          ''/opt'' world0))
     ''/opt/ocid1.drprotectiongroup.oc1.phx.bbb.20250101000000'' \<noteq> None"
proof -
  let ?E = "test_env standby_group primary_group unknown_type_plans"
  have a: "drpg_lifecycle_state (standby standby_locals) = ''ACTIVE''"
    by (simp add: standby_locals_def standby_group_def)
  have l: "\<And>st. fst (list_active_dr_plans ?E (drpg_id (standby standby_locals))
                    (dr_client standby_locals) st) =
             Inr (PlanList ([test_plan ''p1'' ''SWITCHOVER''] @
                    test_plan ''p2'' ''MAINTENANCE'' # [test_plan ''p3'' ''FAILOVER'']))"
    using test_env_listing [of unknown_type_plans standby_group primary_group]
    by (simp add: unknown_type_plans_def test_plan_def transitional_states_def)
  from run_unknown_type [OF resolve_standby_group a l test_env_switchover unknown_maintenance]
  show ?thesis
    by (simp add: test_plan_def standby_locals_def)
qed

text \<open>
  C5. In a run that reaches the enumeration (the first part has returned the standby
  view, and that view is ACTIVE), if a query of the plan listing raises, the listing
  returns the absent value, and the run ends with the uncaught \<open>TypeError\<close> of \<open>len\<close> on
  that value: the region file is still on disk and nothing has been published.
\<close>

theorem enumeration_failure_unhandled:
  assumes resolve: "run_prechecks_resolve env ocid topic base st0 = (Inr l, st1)"
    and active: "drpg_lifecycle_state (standby l) = ''ACTIVE''"
    and fails: "(\<exists>e. list_dr_plans env (tick st1 + 1) (dr_client l) (drpg_id (standby l)) None =
          Inl e) \<or>
       (\<exists>items e. list_dr_plans env (tick st1 + 1) (dr_client l) (drpg_id (standby l)) None =
          Inr items \<and>
          find (\<lambda>p. plan_lifecycle_state p \<in> transitional_states) items = None \<and>
          list_dr_plans env (tick st1 + 2) (dr_client l) (drpg_id (standby l))
            (Some ''ACTIVE'') = Inl e)"
  shows "(\<forall>st. tick st = tick st1 + 1 \<longrightarrow>
            fst (list_active_dr_plans env (drpg_id (standby l)) (dr_client l) st) =
              Inr PlanNone) \<and>
         fst (run_prechecks env ocid topic base st0) =
           Inl (Raised (Exception ''TypeError''
             (''object of type '' @ [CHR 0x27] @ ''NoneType'' @ [CHR 0x27] @
              '' has no len()''))) \<and>
         files (snd (run_prechecks env ocid topic base st0)) (region_file l) \<noteq> None \<and>
         published (snd (run_prechecks env ocid topic base st0)) = published st0"
proof -
  have "fst (list_active_dr_plans env (drpg_id (standby l)) (dr_client l) st) = Inr PlanNone"
    if "tick st = tick st1 + 1" for st
    using fails that by (intro list_active_None) (simp add: add.assoc)
  with run_enumeration_fails [OF resolve active fails] show ?thesis by blast
qed

theorem enumeration_failure_unhandled_witness:
  "fst (run_prechecks listing_down_env ''ocid1.drprotectiongroup.oc1.phx.bbb''
          (Some ''ocid1.onstopic.oc1.phx.ttt'') ''/opt'' world0) =
     Inl (Raised (Exception ''TypeError''
        (''object of type '' @ [CHR 0x27] @ ''NoneType'' @ [CHR 0x27] @ '' has no len()''))) \<and>
   files (snd (run_prechecks listing_down_env ''ocid1.drprotectiongroup.oc1.phx.bbb''
          (Some ''ocid1.onstopic.oc1.phx.ttt'') ''/opt'' world0))
     ''/opt/ocid1.drprotectiongroup.oc1.phx.bbb.20250101000000'' \<noteq> None \<and>
   published (snd (run_prechecks listing_down_env ''ocid1.drprotectiongroup.oc1.phx.bbb''
          (Some ''ocid1.onstopic.oc1.phx.ttt'') ''/opt'' world0)) = []"
proof -
  let ?r = "run_prechecks_resolve listing_down_env ''ocid1.drprotectiongroup.oc1.phx.bbb''
              (Some ''ocid1.onstopic.oc1.phx.ttt'') ''/opt'' world0"
  have "fst ?r = Inr standby_locals"
    by (simp add: run_prechecks_resolve_def run_prechecks_connect_def run_prechecks_role_def
        valid_bbb valid_ttt normalize_phx prog_defs truthy_def py_str_def
        get_drpg_details_def listing_down_env_def test_env_def world0_def standby_group_def
        standby_locals_def region_path_def)
  then have r: "?r = (Inr standby_locals, snd ?r)"
    by (simp add: prod_eq_iff)
  have a: "drpg_lifecycle_state (standby standby_locals) = ''ACTIVE''"
    by (simp add: standby_locals_def standby_group_def)
  have f: "\<exists>e. list_dr_plans listing_down_env (tick (snd ?r) + 1) (dr_client standby_locals)
             (drpg_id (standby standby_locals)) None = Inl e"
    by (simp add: listing_down_env_def)
  from enumeration_failure_unhandled [OF r a disjI1 [OF f]]
  show ?thesis
    by (simp add: standby_locals_def world0_def)
qed

section \<open>The requests and log records of a run\<close>



lemma continues_logger:
  "logger_log env lv msg exc st = (r, st') \<Longrightarrow> continues c sid st st'"
  by (auto simp: logger_log_def continues_def)

lemma continues_get:
  "get_drpg_details env sid c st = (r, st') \<Longrightarrow> continues c sid st st'"
  by (auto simp: get_drpg_details_def prog_defs continues_def split: sum.splits)















section \<open>The error exits\<close>






















end
